theory Spec2Isabelle
  imports Main "HOL-Library.Log_Nat"
begin

section \<open>Values and exceptions of the Python program\<close>

text \<open>
  The object returned by \<^verbatim>\<open>response.json()\<close>. A Python \<^verbatim>\<open>dict\<close> is the
  list of its items in insertion order (keys are distinct in a parsed document; a lookup
  reads the first binding). JSON numbers with a fraction or an exponent (Python floats)
  are not part of this model: every count the GitHub endpoints send is an integer.
\<close>

datatype json =
    JNull
  | JBool bool
  | JInt int
  | JStr string
  | JArr "json list"
  | JObj "(string \<times> json) list"

text \<open>
  Exceptions of the Python library (all subclasses of \<^verbatim>\<open>Exception\<close>) that the
  modelled code can meet. \<open>RequestException\<close> stands for any failure of
  \<^verbatim>\<open>requests.get\<close> that is neither a timeout nor a connection error.
\<close>

datatype pyexc =
    KeyError json
  | IndexError
  | TypeError
  | ValueError
  | AttributeError
  | ZeroDivisionError
  | OverflowError
  | OSError
  | JSONDecodeError
  | RequestException

text \<open>
  Everything that can propagate out of a function of \<^verbatim>\<open>app.py\<close>:
  \<^verbatim>\<open>requests.Timeout\<close>, \<^verbatim>\<open>requests.ConnectionError\<close>, the program's own
  \<^verbatim>\<open>GitHubAPIError(message, status_code=None, remaining_calls=None)\<close>, or a
  library exception.
\<close>

datatype exn =
    Timeout
  | ConnectionError
  | GitHubAPIError (message: string) (err_status_code: "int option")
      (remaining_calls: "string option")
  | Py pyexc

text \<open>
  The behaviour of the Python library that the program calls and that depends on the
  interpreter and the host (time zone, C library): it is a parameter of every function
  below.
  \<^item> \<open>exc_str e\<close> is \<^verbatim>\<open>str(e)\<close> for a library exception;
  \<^item> \<open>int_of_str s\<close> is \<^verbatim>\<open>int(s)\<close>;
  \<^item> \<open>timestamp_strftime n fmt\<close> is \<^verbatim>\<open>datetime.fromtimestamp(n).strftime(fmt)\<close>;
  \<^item> \<open>strptime_strftime s f g\<close> is \<^verbatim>\<open>datetime.strptime(s, f).strftime(g)\<close>.
\<close>

record pylib =
  exc_str :: "pyexc \<Rightarrow> string"
  int_of_str :: "string \<Rightarrow> pyexc + int"
  timestamp_strftime :: "int \<Rightarrow> string \<Rightarrow> pyexc + string"
  strptime_strftime :: "string \<Rightarrow> string \<Rightarrow> string \<Rightarrow> pyexc + string"

text \<open>
  A \<^verbatim>\<open>requests.Response\<close>: \<open>headers r k\<close> is \<^verbatim>\<open>response.headers.get(k)\<close>,
  \<open>json r\<close> is what \<^verbatim>\<open>response.json()\<close> returns or raises.
\<close>

record response =
  status_code :: int
  headers :: "string \<Rightarrow> string option"
  body_text :: string
  json :: "pyexc + json"

text \<open>
  What one call of \<^verbatim>\<open>requests.get\<close> does: it returns a response or raises.
  \<open>RaisesTimeout\<close> is any exception that an \<^verbatim>\<open>except requests.Timeout\<close> clause
  catches, \<open>RaisesConnectionError\<close> any other one that
  \<^verbatim>\<open>except requests.ConnectionError\<close> catches, in the order the fetchers test them.
\<close>

datatype get_outcome =
    Response response
  | RaisesTimeout
  | RaisesConnectionError
  | RaisesOther pyexc

subsection \<open>Sequencing with exceptions\<close>

definition and_then :: "'e + 'a \<Rightarrow> ('a \<Rightarrow> 'e + 'b) \<Rightarrow> 'e + 'b" where
  "and_then m f = (case m of Inl e \<Rightarrow> Inl e | Inr x \<Rightarrow> f x)"

definition lift_py :: "pyexc + 'a \<Rightarrow> exn + 'a" where
  "lift_py m = (case m of Inl e \<Rightarrow> Inl (Py e) | Inr x \<Rightarrow> Inr x)"

subsection \<open>Python primitives on JSON values\<close>

text \<open>Truthiness (\<^verbatim>\<open>if not x\<close>).\<close>

fun truthy :: "json \<Rightarrow> bool" where
  "truthy JNull = False"
| "truthy (JBool b) = b"
| "truthy (JInt n) = (n \<noteq> 0)"
| "truthy (JStr s) = (s \<noteq> [])"
| "truthy (JArr xs) = (xs \<noteq> [])"
| "truthy (JObj kvs) = (kvs \<noteq> [])"

text \<open>\<^verbatim>\<open>c[k]\<close> for a string key \<open>k\<close>.\<close>

fun getitem_str :: "json \<Rightarrow> string \<Rightarrow> pyexc + json" where
  "getitem_str (JObj kvs) k =
     (case map_of kvs k of None \<Rightarrow> Inl (KeyError (JStr k)) | Some v \<Rightarrow> Inr v)"
| "getitem_str _ k = Inl TypeError"

text \<open>\<^verbatim>\<open>c[i]\<close> for an index \<open>i \<ge> 0\<close>.\<close>

fun getitem_idx :: "json \<Rightarrow> nat \<Rightarrow> pyexc + json" where
  "getitem_idx (JArr xs) i = (if i < length xs then Inr (xs ! i) else Inl IndexError)"
| "getitem_idx (JStr s) i = (if i < length s then Inr (JStr [s ! i]) else Inl IndexError)"
| "getitem_idx (JObj kvs) i = Inl (KeyError (JInt (int i)))"
| "getitem_idx _ i = Inl TypeError"

text \<open>\<^verbatim>\<open>d.get(k, default)\<close> on a value already known to be a dict or not.\<close>

fun dict_get :: "json \<Rightarrow> string \<Rightarrow> json \<Rightarrow> pyexc + json" where
  "dict_get (JObj kvs) k d = (case map_of kvs k of None \<Rightarrow> Inr d | Some v \<Rightarrow> Inr v)"
| "dict_get _ k d = Inl AttributeError"

text \<open>\<^verbatim>\<open>for x in c\<close>: the elements a loop over \<open>c\<close> visits.\<close>

fun py_iter :: "json \<Rightarrow> pyexc + json list" where
  "py_iter (JArr xs) = Inr xs"
| "py_iter (JObj kvs) = Inr (map (\<lambda>kv. JStr (fst kv)) kvs)"
| "py_iter (JStr s) = Inr (map (\<lambda>c. JStr [c]) s)"
| "py_iter _ = Inl TypeError"

text \<open>\<^verbatim>\<open>n + v\<close> for an int \<open>n\<close>: \<^verbatim>\<open>bool\<close> is a subclass of \<^verbatim>\<open>int\<close>.\<close>

fun int_add :: "int \<Rightarrow> json \<Rightarrow> pyexc + int" where
  "int_add n (JInt m) = Inr (n + m)"
| "int_add n (JBool b) = Inr (n + (if b then 1 else 0))"
| "int_add n _ = Inl TypeError"

text \<open>\<^verbatim>\<open>str(n)\<close> for an int.\<close>

fun str_nat :: "nat \<Rightarrow> string" where
  "str_nat n =
     (if n < 10 then [''0123456789'' ! n] else str_nat (n div 10) @ [''0123456789'' ! (n mod 10)])"

definition str_int :: "int \<Rightarrow> string" where
  "str_int i = (if i < 0 then CHR ''-'' # str_nat (nat (- i)) else str_nat (nat i))"

section \<open>The error normalizer: \<^verbatim>\<open>handle_github_error\<close>\<close>

text \<open>
  The value of the local variable \<^verbatim>\<open>reset_time\<close> after lines 74-79: the header
  converted to a local \<^verbatim>\<open>HH:MM:SS\<close> string when it is present and non-empty,
  \<^verbatim>\<open>'Unknown'\<close> otherwise; \<^verbatim>\<open>int\<close> and \<^verbatim>\<open>fromtimestamp\<close> may raise.
\<close>

definition header_reset_time :: "pylib \<Rightarrow> response \<Rightarrow> pyexc + string" where
  "header_reset_time L r =
     (case headers r ''X-RateLimit-Reset'' of
        None \<Rightarrow> Inr ''Unknown''
      | Some s \<Rightarrow>
          if s \<noteq> [] then and_then (int_of_str L s) (\<lambda>n. timestamp_strftime L n ''%H:%M:%S'')
          else Inr ''Unknown'')"

text \<open>
  \<^verbatim>\<open>handle_github_error\<close> never returns: the result is the exception it raises.
\<close>

definition handle_github_error :: "pylib \<Rightarrow> response \<Rightarrow> exn" where
  "handle_github_error L r =
     (let remaining =
            (case headers r ''X-RateLimit-Remaining'' of None \<Rightarrow> ''Unknown'' | Some v \<Rightarrow> v)
      in case header_reset_time L r of
           Inl e \<Rightarrow> Py e
         | Inr rt \<Rightarrow>
             if status_code r = 404 then
               GitHubAPIError ''Repository not found. Please check the URL.''
                 (Some 404) (Some remaining)
             else if status_code r = 403 then
               GitHubAPIError
                 (''Rate limit exceeded. Resets at '' @ rt @ ''. Remaining calls: '' @ remaining)
                 (Some 403) (Some remaining)
             else if status_code r = 401 then
               GitHubAPIError ''Unauthorized access. Please check your credentials.''
                 (Some 401) (Some remaining)
             else if status_code r = 429 then
               GitHubAPIError (''Too many requests. Please wait until '' @ rt @ ''.'')
                 (Some 429) (Some remaining)
             else
               GitHubAPIError
                 (''GitHub API error: '' @ str_int (status_code r) @ '' - '' @ body_text r)
                 (Some (status_code r)) (Some remaining))"

text \<open>\<^verbatim>\<open>requests.get(...)\<close> as the first statement of a \<^verbatim>\<open>try\<close> block.\<close>

fun requests_get :: "get_outcome \<Rightarrow> exn + response" where
  "requests_get (Response r) = Inr r"
| "requests_get RaisesTimeout = Inl Timeout"
| "requests_get RaisesConnectionError = Inl ConnectionError"
| "requests_get (RaisesOther e) = Inl (Py e)"

section \<open>The commit activity fetcher: \<^verbatim>\<open>fetch_commit_activity\<close>\<close>

datatype commit_activity =
    Computing string
  | Ready (total_commits: int) (weeks: "string list") (commits: "json list")
      (daily_commits: "int list")

text \<open>\<^verbatim>\<open>sum(week['total'] for week in data)\<close>, the accumulator starting at 0.\<close>

fun sum_totals :: "json list \<Rightarrow> int \<Rightarrow> pyexc + int" where
  "sum_totals [] acc = Inr acc"
| "sum_totals (week # rest) acc =
     and_then (getitem_str week ''total'') (\<lambda>v.
     and_then (int_add acc v) (\<lambda>acc'. sum_totals rest acc'))"

text \<open>\<^verbatim>\<open>datetime.fromtimestamp(x)\<close> takes an int (or a bool); anything else is a TypeError.\<close>

fun fromtimestamp_strftime :: "pylib \<Rightarrow> json \<Rightarrow> string \<Rightarrow> pyexc + string" where
  "fromtimestamp_strftime L (JInt n) fmt = timestamp_strftime L n fmt"
| "fromtimestamp_strftime L (JBool b) fmt = timestamp_strftime L (if b then 1 else 0) fmt"
| "fromtimestamp_strftime L _ fmt = Inl TypeError"

text \<open>The loop of lines 185-188 that fills \<^verbatim>\<open>weeks\<close>.\<close>

fun week_dates :: "pylib \<Rightarrow> json list \<Rightarrow> string list \<Rightarrow> pyexc + string list" where
  "week_dates L [] acc = Inr acc"
| "week_dates L (week # rest) acc =
     and_then (getitem_str week ''week'') (\<lambda>t.
     and_then (fromtimestamp_strftime L t ''%Y-%m-%d'') (\<lambda>week_date.
     week_dates L rest (acc @ [week_date])))"

text \<open>\<^verbatim>\<open>[week['total'] for week in data]\<close>.\<close>

fun week_totals :: "json list \<Rightarrow> pyexc + json list" where
  "week_totals [] = Inr []"
| "week_totals (week # rest) =
     and_then (getitem_str week ''total'') (\<lambda>v.
     and_then (week_totals rest) (\<lambda>vs. Inr (v # vs)))"

text \<open>
  The inner loop of lines 196-197 over the days still to visit, and the outer loop of
  line 195. \<open>daily\<close> always has 7 slots and every day visited is below 7, so the
  slot read and written exists.
\<close>

fun add_week_days :: "json \<Rightarrow> nat list \<Rightarrow> int list \<Rightarrow> pyexc + int list" where
  "add_week_days week [] daily = Inr daily"
| "add_week_days week (day # rest) daily =
     and_then (getitem_str week ''days'') (\<lambda>days.
     and_then (getitem_idx days day) (\<lambda>v.
     and_then (int_add (daily ! day) v) (\<lambda>s.
     add_week_days week rest (daily[day := s]))))"

fun add_all_days :: "json list \<Rightarrow> int list \<Rightarrow> pyexc + int list" where
  "add_all_days [] daily = Inr daily"
| "add_all_days (week # rest) daily =
     and_then (add_week_days week [0..<7] daily) (\<lambda>daily'. add_all_days rest daily')"

text \<open>The body of the \<^verbatim>\<open>try\<close> block, lines 163-205.\<close>

definition commit_activity_body :: "pylib \<Rightarrow> get_outcome \<Rightarrow> exn + commit_activity option" where
  "commit_activity_body L out =
     and_then (requests_get out) (\<lambda>r.
       if status_code r = 202 then
         Inr (Some (Computing
           ''GitHub is computing statistics. Please wait a moment and try again.''))
       else if status_code r \<noteq> 200 then Inl (handle_github_error L r)
       else
         and_then (lift_py (json r)) (\<lambda>data.
           if \<not> truthy data then Inr None
           else lift_py (
             and_then (py_iter data) (\<lambda>ws.
             and_then (sum_totals ws 0) (\<lambda>total.
             and_then (week_dates L ws []) (\<lambda>dates.
             and_then (week_totals ws) (\<lambda>cs.
             and_then (add_all_days ws (replicate 7 0)) (\<lambda>daily.
             Inr (Some (Ready total dates cs daily))))))))))"

text \<open>
  The \<^verbatim>\<open>except\<close> clauses of lines 207-212, in their order: there is no clause that
  re-raises a \<^verbatim>\<open>GitHubAPIError\<close>, so the last clause catches it too
  (\<^verbatim>\<open>str(e)\<close> of a \<^verbatim>\<open>GitHubAPIError\<close> is its message).
\<close>

definition fetch_commit_activity :: "pylib \<Rightarrow> get_outcome \<Rightarrow> exn + commit_activity option" where
  "fetch_commit_activity L out =
     (case commit_activity_body L out of
        Inr v \<Rightarrow> Inr v
      | Inl Timeout \<Rightarrow>
          Inl (GitHubAPIError ''Request timed out while fetching commit activity.'' None None)
      | Inl ConnectionError \<Rightarrow>
          Inl (GitHubAPIError ''Connection error while fetching commit activity.'' None None)
      | Inl (GitHubAPIError m sc rc) \<Rightarrow>
          Inl (GitHubAPIError (''Error fetching commit activity: '' @ m) None None)
      | Inl (Py e) \<Rightarrow>
          Inl (GitHubAPIError (''Error fetching commit activity: '' @ exc_str L e) None None))"

section \<open>The repository summary fetcher: \<^verbatim>\<open>fetch_repo_data\<close>\<close>

text \<open>
  \<^verbatim>\<open>format_date\<close> (line 950): \<^verbatim>\<open>strptime\<close> raises a TypeError on anything but a
  string.
\<close>

fun format_date :: "pylib \<Rightarrow> json \<Rightarrow> pyexc + string" where
  "format_date L (JStr s) = strptime_strftime L s ''%Y-%m-%dT%H:%M:%SZ'' ''%Y-%m-%d''"
| "format_date L _ = Inl TypeError"

text \<open>The dict that \<^verbatim>\<open>fetch_repo_data\<close> returns, one field per key.\<close>

record repo_info =
  name :: json
  description :: json
  stargazers_count :: json
  forks_count :: json
  watchers_count :: json
  language :: json
  created_at :: string
  updated_at :: string

text \<open>The dict display of lines 116-125: keys and values are evaluated in order.\<close>

definition build_repo_info :: "pylib \<Rightarrow> json \<Rightarrow> pyexc + repo_info" where
  "build_repo_info L repo_data =
     and_then (getitem_str repo_data ''name'') (\<lambda>n.
     and_then (dict_get repo_data ''description'' (JStr ''No description available'')) (\<lambda>d.
     and_then (getitem_str repo_data ''stargazers_count'') (\<lambda>s.
     and_then (getitem_str repo_data ''forks_count'') (\<lambda>f.
     and_then (getitem_str repo_data ''watchers_count'') (\<lambda>w.
     and_then (dict_get repo_data ''language'' (JStr ''Not specified'')) (\<lambda>l.
     and_then (getitem_str repo_data ''created_at'') (\<lambda>c.
     and_then (format_date L c) (\<lambda>created.
     and_then (getitem_str repo_data ''updated_at'') (\<lambda>u.
     and_then (format_date L u) (\<lambda>updated.
     Inr \<lparr>name = n, description = d, stargazers_count = s, forks_count = f,
          watchers_count = w, language = l, created_at = created,
          updated_at = updated\<rparr>))))))))))"

definition repo_data_body :: "pylib \<Rightarrow> get_outcome \<Rightarrow> exn + repo_info" where
  "repo_data_body L out =
     and_then (requests_get out) (\<lambda>r.
       if status_code r \<noteq> 200 then Inl (handle_github_error L r)
       else and_then (lift_py (json r)) (\<lambda>repo_data. lift_py (build_repo_info L repo_data)))"

text \<open>The \<^verbatim>\<open>except\<close> clauses of lines 126-133.\<close>

definition fetch_repo_data :: "pylib \<Rightarrow> get_outcome \<Rightarrow> exn + repo_info" where
  "fetch_repo_data L out =
     (case repo_data_body L out of
        Inr v \<Rightarrow> Inr v
      | Inl Timeout \<Rightarrow> Inl (GitHubAPIError ''Request timed out. Please try again.'' None None)
      | Inl ConnectionError \<Rightarrow>
          Inl (GitHubAPIError ''Connection error. Please check your internet connection.''
                 None None)
      | Inl (GitHubAPIError m sc rc) \<Rightarrow> Inl (GitHubAPIError m sc rc)
      | Inl (Py e) \<Rightarrow> Inl (GitHubAPIError (''Unexpected error: '' @ exc_str L e) None None))"

section \<open>The language composition fetcher: \<^verbatim>\<open>fetch_language_stats\<close>\<close>

subsection \<open>Python floats\<close>

text \<open>
  A finite binary64 value is the rational number it denotes (the two zeros are one
  value); \<open>fl64\<close> rounds a rational to binary64, to nearest with ties to even,
  subnormal numbers included and with no bound on the exponent above: the operations
  below turn a result of magnitude \<open>2 ^ 1024\<close> or more into an overflow.
\<close>

definition round_half_even :: "rat \<Rightarrow> int" where
  "round_half_even x =
     (let f = \<lfloor>x\<rfloor>; d = x - of_int f
      in if d < 1 / 2 then f else if 1 / 2 < d then f + 1 else if even f then f else f + 1)"

text \<open>For \<open>x > 0\<close>, the integer \<open>e\<close> with \<open>2 ^ e \<le> x < 2 ^ (e + 1)\<close>.\<close>

definition expo :: "rat \<Rightarrow> int" where
  "expo x =
     (let (a, b) = quotient_of x; d = bitlen a - bitlen b
      in if 2 powi d \<le> x then d else d - 1)"

definition fl64 :: "rat \<Rightarrow> rat" where
  "fl64 x =
     (if x = 0 then 0
      else let e = max (expo \<bar>x\<bar>) (- 1022); ulp = 2 powi (e - 52)
           in sgn x * of_int (round_half_even (\<bar>x\<bar> / ulp)) * ulp)"

datatype pyfloat = Finite rat | Infinity bool

text \<open>
  \<^verbatim>\<open>a / b\<close> on ints: the correctly rounded quotient; a zero divisor and a quotient too
  large for a float raise.
\<close>

definition int_truediv :: "int \<Rightarrow> int \<Rightarrow> pyexc + rat" where
  "int_truediv a b =
     (if b = 0 then Inl ZeroDivisionError
      else let q = fl64 (of_int a / of_int b)
           in if 2 ^ 1024 \<le> \<bar>q\<bar> then Inl OverflowError else Inr q)"

text \<open>\<^verbatim>\<open>x * y\<close> on finite floats: an overflow gives an infinity, not an exception.\<close>

definition float_mul :: "rat \<Rightarrow> rat \<Rightarrow> pyfloat" where
  "float_mul x y =
     (let p = fl64 (x * y) in if 2 ^ 1024 \<le> \<bar>p\<bar> then Infinity (p < 0) else Finite p)"

text \<open>\<^verbatim>\<open>count / total\<close> where \<open>total\<close> is an int and \<open>count\<close> a JSON value.\<close>

fun json_truediv :: "json \<Rightarrow> int \<Rightarrow> pyexc + rat" where
  "json_truediv (JInt n) tot = int_truediv n tot"
| "json_truediv (JBool b) tot = int_truediv (if b then 1 else 0) tot"
| "json_truediv _ tot = Inl TypeError"

subsection \<open>The fetcher\<close>

text \<open>\<^verbatim>\<open>languages.values()\<close> and \<^verbatim>\<open>languages.items()\<close>: only a dict has them.\<close>

fun dict_values :: "json \<Rightarrow> pyexc + json list" where
  "dict_values (JObj kvs) = Inr (map snd kvs)"
| "dict_values _ = Inl AttributeError"

fun dict_items :: "json \<Rightarrow> pyexc + (string \<times> json) list" where
  "dict_items (JObj kvs) = Inr kvs"
| "dict_items _ = Inl AttributeError"

text \<open>\<^verbatim>\<open>sum(vs)\<close>, the accumulator starting at 0.\<close>

fun sum_values :: "json list \<Rightarrow> int \<Rightarrow> pyexc + int" where
  "sum_values [] acc = Inr acc"
| "sum_values (v # vs) acc = and_then (int_add acc v) (\<lambda>acc'. sum_values vs acc')"

text \<open>The dict comprehension of lines 151-154, item by item.\<close>

fun percentages :: "(string \<times> json) list \<Rightarrow> int \<Rightarrow> pyexc + (string \<times> pyfloat) list" where
  "percentages [] tot = Inr []"
| "percentages ((lang, count) # rest) tot =
     and_then (json_truediv count tot) (\<lambda>q.
     and_then (percentages rest tot) (\<lambda>ps. Inr ((lang, float_mul q 100) # ps)))"

definition language_stats_body ::
  "pylib \<Rightarrow> get_outcome \<Rightarrow> exn + (string \<times> pyfloat) list option" where
  "language_stats_body L out =
     and_then (requests_get out) (\<lambda>r.
       if status_code r \<noteq> 200 then Inl (handle_github_error L r)
       else
         and_then (lift_py (json r)) (\<lambda>languages.
           if \<not> truthy languages then Inr None
           else lift_py (
             and_then (dict_values languages) (\<lambda>vs.
             and_then (sum_values vs 0) (\<lambda>total.
             and_then (dict_items languages) (\<lambda>items.
             and_then (percentages items total) (\<lambda>ps. Inr (Some ps))))))))"

text \<open>
  The \<^verbatim>\<open>except\<close> clauses of lines 155-158: the first re-raises a timeout, a connection
  error and a \<^verbatim>\<open>GitHubAPIError\<close> as they are.
\<close>

definition fetch_language_stats ::
  "pylib \<Rightarrow> get_outcome \<Rightarrow> exn + (string \<times> pyfloat) list option" where
  "fetch_language_stats L out =
     (case language_stats_body L out of
        Inr v \<Rightarrow> Inr v
      | Inl Timeout \<Rightarrow> Inl Timeout
      | Inl ConnectionError \<Rightarrow> Inl ConnectionError
      | Inl (GitHubAPIError m sc rc) \<Rightarrow> Inl (GitHubAPIError m sc rc)
      | Inl (Py e) \<Rightarrow>
          Inl (GitHubAPIError (''Error fetching language statistics: '' @ exc_str L e)
                 None None))"

section \<open>The rate limit inspector: \<^verbatim>\<open>check_rate_limit\<close>\<close>

record rate_limit =
  remaining :: json
  reset_time :: string
  limit :: json

text \<open>The body of the \<^verbatim>\<open>try\<close> block, lines 58-66; a status other than 200 falls through.\<close>

definition rate_limit_body :: "pylib \<Rightarrow> get_outcome \<Rightarrow> exn + rate_limit option" where
  "rate_limit_body L out =
     and_then (requests_get out) (\<lambda>r.
       if status_code r = 200 then
         and_then (lift_py (json r)) (\<lambda>data. lift_py (
           and_then (getitem_str data ''resources'') (\<lambda>res.
           and_then (getitem_str res ''core'') (\<lambda>core.
           and_then (getitem_str core ''remaining'') (\<lambda>rem.
           and_then (getitem_str core ''reset'') (\<lambda>rs.
           and_then (fromtimestamp_strftime L rs ''%H:%M:%S'') (\<lambda>t.
           and_then (getitem_str core ''limit'') (\<lambda>lim.
           Inr (Some \<lparr>remaining = rem, reset_time = t, limit = lim\<rparr>)))))))))
       else Inr None)"

text \<open>\<^verbatim>\<open>except Exception: pass\<close>, then \<^verbatim>\<open>return None\<close>.\<close>

definition check_rate_limit :: "pylib \<Rightarrow> get_outcome \<Rightarrow> exn + rate_limit option" where
  "check_rate_limit L out =
     (case rate_limit_body L out of Inr v \<Rightarrow> Inr v | Inl e \<Rightarrow> Inr None)"

section \<open>The identifier extractor: \<^verbatim>\<open>extract_repo_info\<close>\<close>

text \<open>
  The pattern \<^verbatim>\<open>github\.com/([^/]+)/([^/]+)\<close> matched at the start of \<open>s\<close>. Both
  groups are greedy runs of characters other than a slash; the first must be followed
  by a slash, so giving characters back never helps and the match is unique. Strings
  are the UTF-8 bytes of the Python string: the pattern and \<^verbatim>\<open>'.git'\<close> are ASCII,
  and no byte of a longer sequence is an ASCII byte.
\<close>

definition match_here :: "string \<Rightarrow> (string \<times> string) option" where
  "match_here s =
     (if take 11 s = ''github.com/'' then
        let rest = drop 11 s;
            owner = takeWhile (\<lambda>c. c \<noteq> CHR ''/'') rest
        in if owner = [] then None
           else (case dropWhile (\<lambda>c. c \<noteq> CHR ''/'') rest of
                   [] \<Rightarrow> None
                 | slash # rest' \<Rightarrow>
                     let repo = takeWhile (\<lambda>c. c \<noteq> CHR ''/'') rest'
                     in if repo = [] then None else Some (owner, repo))
      else None)"

text \<open>\<^verbatim>\<open>re.search\<close>: the match at the leftmost position that has one.\<close>

fun re_search :: "string \<Rightarrow> (string \<times> string) option" where
  "re_search [] = None"
| "re_search (c # cs) =
     (case match_here (c # cs) of Some m \<Rightarrow> Some m | None \<Rightarrow> re_search cs)"

text \<open>
  \<^verbatim>\<open>repo.replace(".git", "")\<close>: every occurrence, left to right, without overlap.
\<close>

function replace_git :: "string \<Rightarrow> string" where
  "replace_git s =
     (if s = [] then []
      else if take 4 s = ''.git'' then replace_git (drop 4 s)
      else hd s # replace_git (tl s))"
  by pat_completeness auto
termination
  by (relation "measure length") (auto simp: neq_Nil_conv)

definition extract_repo_info :: "string \<Rightarrow> string option \<times> string option" where
  "extract_repo_info url =
     (case re_search url of
        Some (owner, repo) \<Rightarrow> (Some owner, Some (replace_git repo))
      | None \<Rightarrow> (None, None))"

section \<open>A reference library\<close>

text \<open>
  One behaviour of the library parameter, used to run the functions on concrete inputs:
  CPython on a host whose local time is UTC. It agrees with CPython on the inputs it is
  run on below: ASCII decimal numerals for \<^verbatim>\<open>int\<close>, timestamps of the years 1970 to
  9999, and zero-padded \<^verbatim>\<open>YYYY-MM-DDTHH:MM:SSZ\<close> dates of the years 1000 to 9999.
  CPython words a TypeError, a ValueError and the like differently at each place that
  raises one; here such an exception prints as the name of its class.
\<close>

fun ref_exc_str :: "pyexc \<Rightarrow> string" where
  "ref_exc_str (KeyError (JStr k)) = CHR 0x27 # k @ [CHR 0x27]"
| "ref_exc_str (KeyError (JInt i)) = str_int i"
| "ref_exc_str (KeyError _) = ''KeyError''"
| "ref_exc_str ZeroDivisionError = ''division by zero''"
| "ref_exc_str IndexError = ''IndexError''"
| "ref_exc_str TypeError = ''TypeError''"
| "ref_exc_str ValueError = ''ValueError''"
| "ref_exc_str AttributeError = ''AttributeError''"
| "ref_exc_str OverflowError = ''OverflowError''"
| "ref_exc_str OSError = ''OSError''"
| "ref_exc_str JSONDecodeError = ''JSONDecodeError''"
| "ref_exc_str RequestException = ''RequestException''"

definition is_digit :: "char \<Rightarrow> bool" where
  "is_digit c = ((48::nat) \<le> of_char c \<and> of_char c \<le> (57::nat))"

definition nat_of_digits :: "string \<Rightarrow> nat" where
  "nat_of_digits s = foldl (\<lambda>n c. 10 * n + (of_char c - 48)) 0 s"

definition ref_int_of_str :: "string \<Rightarrow> pyexc + int" where
  "ref_int_of_str s =
     (let (neg, ds) = (case s of
                         [] \<Rightarrow> (False, [])
                       | c # cs \<Rightarrow> if c = CHR ''-'' then (True, cs)
                                  else if c = CHR ''+'' then (False, cs) else (False, s))
      in if ds \<noteq> [] \<and> list_all is_digit ds
         then Inr (if neg then - int (nat_of_digits ds) else int (nat_of_digits ds))
         else Inl ValueError)"

definition pad2 :: "nat \<Rightarrow> string" where
  "pad2 n = (if n < 10 then CHR ''0'' # str_nat n else str_nat n)"

text \<open>The civil date of a day number counted from 1970-01-01 (Gregorian calendar).\<close>

definition civil_from_days :: "int \<Rightarrow> int \<times> nat \<times> nat" where
  "civil_from_days z =
     (let z' = z + 719468;
          era = z' div 146097;
          doe = z' mod 146097;
          yoe = (doe - doe div 1460 + doe div 36524 - doe div 146096) div 365;
          doy = doe - (365 * yoe + yoe div 4 - yoe div 100);
          mp = (5 * doy + 2) div 153;
          d = doy - (153 * mp + 2) div 5 + 1;
          m = (if mp < 10 then mp + 3 else mp - 9);
          y = yoe + era * 400 + (if m \<le> 2 then 1 else 0)
      in (y, nat m, nat d))"

definition ref_timestamp_strftime :: "int \<Rightarrow> string \<Rightarrow> pyexc + string" where
  "ref_timestamp_strftime n fmt =
     (if n < 0 \<or> 253402300800 \<le> n then Inl ValueError
      else if fmt = ''%H:%M:%S'' then
        (let s = nat (n mod 86400)
         in Inr (pad2 (s div 3600) @ '':'' @ pad2 (s div 60 mod 60) @ '':'' @ pad2 (s mod 60)))
      else if fmt = ''%Y-%m-%d'' then
        (case civil_from_days (n div 86400) of
           (y, m, d) \<Rightarrow> Inr (str_int y @ ''-'' @ pad2 m @ ''-'' @ pad2 d))
      else Inl ValueError)"

definition days_in_month :: "nat \<Rightarrow> nat \<Rightarrow> nat" where
  "days_in_month y m =
     (if m = 2 then (if y mod 4 = 0 \<and> (y mod 100 \<noteq> 0 \<or> y mod 400 = 0) then 29 else 28)
      else if m = 4 \<or> m = 6 \<or> m = 9 \<or> m = 11 then 30 else 31)"

definition ref_strptime_strftime :: "string \<Rightarrow> string \<Rightarrow> string \<Rightarrow> pyexc + string" where
  "ref_strptime_strftime s f g =
     (let num = (\<lambda>i k. nat_of_digits (take k (drop i s)));
          dig = (\<lambda>i k. list_all is_digit (take k (drop i s)))
      in if f = ''%Y-%m-%dT%H:%M:%SZ'' \<and> g = ''%Y-%m-%d'' \<and> length s = 20
            \<and> dig 0 4 \<and> s ! 4 = CHR ''-'' \<and> dig 5 2 \<and> s ! 7 = CHR ''-'' \<and> dig 8 2
            \<and> s ! 10 = CHR ''T'' \<and> dig 11 2 \<and> s ! 13 = CHR '':'' \<and> dig 14 2
            \<and> s ! 16 = CHR '':'' \<and> dig 17 2 \<and> s ! 19 = CHR ''Z''
            \<and> 1000 \<le> num 0 4 \<and> 1 \<le> num 5 2 \<and> num 5 2 \<le> 12
            \<and> 1 \<le> num 8 2 \<and> num 8 2 \<le> days_in_month (num 0 4) (num 5 2)
            \<and> num 11 2 < 24 \<and> num 14 2 < 60 \<and> num 17 2 < 60
         then Inr (take 10 s) else Inl ValueError)"

definition ref_lib :: pylib where
  "ref_lib = \<lparr>exc_str = ref_exc_str, int_of_str = ref_int_of_str,
              timestamp_strftime = ref_timestamp_strftime,
              strptime_strftime = ref_strptime_strftime\<rparr>"

section \<open>Notions used in the statements\<close>

text \<open>
  A well-formed week of the commit-activity payload: a dict whose \<^verbatim>\<open>total\<close> is an
  integer, whose \<^verbatim>\<open>days\<close> is a list of 7 integers that sum to the total, and whose
  \<^verbatim>\<open>week\<close> is an integer timestamp that the host converts to a date.
\<close>

fun int_values :: "json list \<Rightarrow> int list option" where
  "int_values [] = Some []"
| "int_values (JInt n # vs) = map_option (Cons n) (int_values vs)"
| "int_values (_ # vs) = None"

definition week_record :: "json \<Rightarrow> (int \<times> int list \<times> int) option" where
  "week_record w =
     (case w of
        JObj kvs \<Rightarrow>
          (case (map_of kvs ''total'', map_of kvs ''days'', map_of kvs ''week'') of
             (Some (JInt t), Some (JArr ds), Some (JInt ts)) \<Rightarrow>
               map_option (\<lambda>ns. (t, ns, ts)) (int_values ds)
           | _ \<Rightarrow> None)
      | _ \<Rightarrow> None)"

definition well_formed_week :: "pylib \<Rightarrow> json \<Rightarrow> bool" where
  "well_formed_week L w =
     (case week_record w of
        Some (t, ns, ts) \<Rightarrow>
          length ns = 7 \<and> t = sum_list ns \<and>
          (case timestamp_strftime L ts ''%Y-%m-%d'' of Inr d \<Rightarrow> True | Inl e \<Rightarrow> False)
      | None \<Rightarrow> False)"

definition week_total :: "json \<Rightarrow> int" where
  "week_total w = (case week_record w of Some (t, ns, ts) \<Rightarrow> t | None \<Rightarrow> 0)"

text \<open>The two weeks of the specification's scenario, starting at the given timestamps.\<close>

definition scenario_weeks :: "int \<Rightarrow> int \<Rightarrow> json" where
  "scenario_weeks ts1 ts2 =
     JArr [JObj [(''total'', JInt 5), (''week'', JInt ts1),
                 (''days'', JArr (map JInt [1, 0, 0, 0, 0, 0, 4]))],
           JObj [(''total'', JInt 3), (''week'', JInt ts2),
                 (''days'', JArr (map JInt [0, 1, 1, 0, 0, 1, 0]))]]"

text \<open>A message suggests a retry when it contains the words \<^verbatim>\<open>try again\<close>.\<close>

fun contains :: "string \<Rightarrow> string \<Rightarrow> bool" where
  "contains p [] = (p = [])"
| "contains p (c # cs) = (take (length p) (c # cs) = p \<or> contains p cs)"

definition retry_suggestion :: "string \<Rightarrow> bool" where
  "retry_suggestion m = contains ''try again'' m"

definition timeout_error :: "exn + 'a \<Rightarrow> bool" where
  "timeout_error res =
     (case res of Inl (GitHubAPIError m sc rc) \<Rightarrow> retry_suggestion m | _ \<Rightarrow> False)"

text \<open>The value of \<^verbatim>\<open>remaining_calls\<close> in \<^verbatim>\<open>handle_github_error\<close> (line 73).\<close>

definition remaining_header :: "response \<Rightarrow> string" where
  "remaining_header r =
     (case headers r ''X-RateLimit-Remaining'' of None \<Rightarrow> ''Unknown'' | Some v \<Rightarrow> v)"








section \<open>Runs of the reference library\<close>

lemma ref_ymd_week1: "timestamp_strftime ref_lib 1699747200 ''%Y-%m-%d'' = Inr ''2023-11-12''"
  by code_simp

lemma ref_ymd_week2: "timestamp_strftime ref_lib 1700352000 ''%Y-%m-%d'' = Inr ''2023-11-19''"
  by code_simp

lemma scenario_well_formed:
  "list_all (well_formed_week ref_lib)
     [JObj [(''total'', JInt 5), (''week'', JInt 1699747200),
            (''days'', JArr (map JInt [1, 0, 0, 0, 0, 0, 4]))],
      JObj [(''total'', JInt 3), (''week'', JInt 1700352000),
            (''days'', JArr (map JInt [0, 1, 1, 0, 0, 1, 0]))]]"
  by (simp add: well_formed_week_def week_record_def ref_ymd_week1 ref_ymd_week2)

lemma ref_format_date_created:
  "format_date ref_lib (JStr ''2011-01-26T19:01:12Z'') = Inr ''2011-01-26''"
  by (simp add: ref_lib_def ref_strptime_strftime_def is_digit_def nat_of_digits_def
      days_in_month_def)

lemma ref_format_date_updated:
  "format_date ref_lib (JStr ''2024-02-29T08:30:00Z'') = Inr ''2024-02-29''"
  by (simp add: ref_lib_def ref_strptime_strftime_def is_digit_def nat_of_digits_def
      days_in_month_def)

lemma ref_int_1700000000: "int_of_str ref_lib ''1700000000'' = Inr 1700000000"
  by (simp add: ref_lib_def ref_int_of_str_def is_digit_def nat_of_digits_def)

lemma ref_hms_1700000000:
  "timestamp_strftime ref_lib 1700000000 ''%H:%M:%S'' = Inr ''22:13:20''"
  by (simp add: ref_lib_def ref_timestamp_strftime_def pad2_def)

section \<open>Commit activity: totals\<close>

lemma int_values_map: "int_values ds = Some ns \<Longrightarrow> ds = map JInt ns"
  by (induction ds arbitrary: ns rule: int_values.induct) auto

lemma week_recordD:
  assumes "week_record w = Some (t, ns, ts)"
  obtains kvs where "w = JObj kvs" and "map_of kvs ''total'' = Some (JInt t)"
    and "map_of kvs ''days'' = Some (JArr (map JInt ns))"
    and "map_of kvs ''week'' = Some (JInt ts)"
  using assms
  by (auto simp add: week_record_def dest: int_values_map
      split: json.splits option.splits)

lemma well_formed_weekD:
  assumes "well_formed_week L w"
  obtains kvs ns ts d where "w = JObj kvs"
    and "map_of kvs ''total'' = Some (JInt (week_total w))"
    and "map_of kvs ''days'' = Some (JArr (map JInt ns))"
    and "map_of kvs ''week'' = Some (JInt ts)"
    and "length ns = 7" and "week_total w = sum_list ns"
    and "timestamp_strftime L ts ''%Y-%m-%d'' = Inr d"
proof -
  from assms obtain t ns ts where rec: "week_record w = Some (t, ns, ts)"
    by (auto simp add: well_formed_week_def split: option.splits)
  with assms have len: "length ns = 7" and t: "t = sum_list ns"
    and "\<exists>d. timestamp_strftime L ts ''%Y-%m-%d'' = Inr d"
    by (auto simp add: well_formed_week_def split: sum.splits)
  then obtain d where d: "timestamp_strftime L ts ''%Y-%m-%d'' = Inr d" by blast
  have wt: "week_total w = t" using rec by (simp add: week_total_def)
  from rec obtain kvs where "w = JObj kvs" "map_of kvs ''total'' = Some (JInt t)"
    "map_of kvs ''days'' = Some (JArr (map JInt ns))" "map_of kvs ''week'' = Some (JInt ts)"
    by (rule week_recordD)
  with len t d wt show ?thesis by (intro that[of kvs ns ts d]) simp_all
qed

lemma sum_totals_well_formed:
  "list_all (well_formed_week L) ws \<Longrightarrow>
   sum_totals ws acc = Inr (acc + sum_list (map week_total ws))"
proof (induction ws arbitrary: acc)
  case Nil
  show ?case by simp
next
  case (Cons w ws)
  from Cons.prems have "well_formed_week L w" by simp
  then obtain kvs where "w = JObj kvs" "map_of kvs ''total'' = Some (JInt (week_total w))"
    by (rule well_formed_weekD)
  moreover from Cons have "sum_totals ws (acc + week_total w) =
      Inr (acc + week_total w + sum_list (map week_total ws))" by simp
  ultimately show ?case by (simp add: and_then_def)
qed

lemma week_totals_well_formed:
  "list_all (well_formed_week L) ws \<Longrightarrow>
   week_totals ws = Inr (map (\<lambda>w. JInt (week_total w)) ws)"
proof (induction ws)
  case Nil
  show ?case by simp
next
  case (Cons w ws)
  from Cons.prems have "well_formed_week L w" by simp
  then obtain kvs where "w = JObj kvs" "map_of kvs ''total'' = Some (JInt (week_total w))"
    by (rule well_formed_weekD)
  with Cons show ?case by (simp add: and_then_def)
qed

lemma week_dates_well_formed:
  "list_all (well_formed_week L) ws \<Longrightarrow>
   \<exists>ds. week_dates L ws acc = Inr (acc @ ds) \<and> length ds = length ws"
proof (induction ws arbitrary: acc)
  case Nil
  show ?case by simp
next
  case (Cons w ws)
  from Cons.prems have "well_formed_week L w" by simp
  then obtain kvs ts d where w: "w = JObj kvs" "map_of kvs ''week'' = Some (JInt ts)"
    "timestamp_strftime L ts ''%Y-%m-%d'' = Inr d"
    by (rule well_formed_weekD)
  from Cons obtain ds where "week_dates L ws (acc @ [d]) = Inr ((acc @ [d]) @ ds)"
    "length ds = length ws" by fastforce
  with w have "week_dates L (w # ws) acc = Inr (acc @ d # ds) \<and>
      length (d # ds) = length (w # ws)" by (simp add: and_then_def)
  then show ?case by blast
qed

lemma upt_7: "[0..<7] = [0, 1, 2, 3, 4, 5, 6]"
  by (simp add: upt_rec)

lemma replicate_7: "replicate 7 x = [x, x, x, x, x, x, x]"
  by (simp add: eval_nat_numeral)

lemma length_7E:
  assumes "length xs = 7"
  obtains a b c d e f g where "xs = [a, b, c, d, e, f, g]"
  using assms by (auto simp add: length_Suc_conv eval_nat_numeral)

lemma add_week_days_well_formed:
  assumes "well_formed_week L w" and "length daily = 7"
  shows "\<exists>daily'. add_week_days w [0..<7] daily = Inr daily' \<and> length daily' = 7 \<and>
     sum_list daily' = sum_list daily + week_total w"
proof -
  from assms(1) obtain kvs ns where w: "w = JObj kvs"
    "map_of kvs ''days'' = Some (JArr (map JInt ns))"
    "length ns = 7" "week_total w = sum_list ns"
    by (rule well_formed_weekD)
  from w(3) obtain n0 n1 n2 n3 n4 n5 n6 where ns: "ns = [n0, n1, n2, n3, n4, n5, n6]"
    by (rule length_7E)
  from assms(2) obtain a0 a1 a2 a3 a4 a5 a6 where daily: "daily = [a0, a1, a2, a3, a4, a5, a6]"
    by (rule length_7E)
  have "add_week_days w [0..<7] daily =
      Inr [a0 + n0, a1 + n1, a2 + n2, a3 + n3, a4 + n4, a5 + n5, a6 + n6]"
    unfolding upt_7 w(1) ns daily using w(2)[unfolded ns]
    by (simp add: and_then_def)
  then show ?thesis using w(4) ns daily by simp
qed

lemma add_all_days_well_formed:
  "list_all (well_formed_week L) ws \<Longrightarrow> length daily = 7 \<Longrightarrow>
   \<exists>daily'. add_all_days ws daily = Inr daily' \<and> length daily' = 7 \<and>
     sum_list daily' = sum_list daily + sum_list (map week_total ws)"
proof (induction ws arbitrary: daily)
  case Nil
  then show ?case by simp
next
  case (Cons w ws)
  from Cons.prems have "well_formed_week L w" by simp
  with Cons.prems(2) obtain d1 where d1: "add_week_days w [0..<7] daily = Inr d1"
    "length d1 = 7" "sum_list d1 = sum_list daily + week_total w"
    using add_week_days_well_formed by blast
  from Cons.prems(1) have "list_all (well_formed_week L) ws" by simp
  from Cons.IH[OF this d1(2)] obtain d2 where "add_all_days ws d1 = Inr d2" "length d2 = 7"
    "sum_list d2 = sum_list d1 + sum_list (map week_total ws)" by blast
  with d1 show ?case by (simp add: and_then_def)
qed


lemma commit_activity_ready:
  assumes "status_code r = 200" and "json r = Inr (JArr ws)" and "ws \<noteq> []"
    and "list_all (well_formed_week L) ws"
  shows "\<exists>dates daily.
     fetch_commit_activity L (Response r) =
       Inr (Some (Ready (sum_list (map week_total ws)) dates
                    (map (\<lambda>w. JInt (week_total w)) ws) daily)) \<and>
     length dates = length ws \<and> length daily = 7 \<and>
     sum_list daily = sum_list (map week_total ws)"
proof -
  from week_dates_well_formed[OF assms(4), of "[]"] obtain dates
    where dates: "week_dates L ws [] = Inr dates" "length dates = length ws" by auto
  from add_all_days_well_formed[OF assms(4), of "replicate 7 0"] obtain daily
    where daily: "add_all_days ws (replicate 7 0) = Inr daily" "length daily = 7"
      "sum_list daily = sum_list (map week_total ws)" by (auto simp add: replicate_7)
  have "commit_activity_body L (Response r) =
      Inr (Some (Ready (sum_list (map week_total ws)) dates
                   (map (\<lambda>w. JInt (week_total w)) ws) daily))"
    using assms(1-3) dates(1) daily(1)
      sum_totals_well_formed[OF assms(4), of 0] week_totals_well_formed[OF assms(4)]
    by (simp add: commit_activity_body_def and_then_def lift_py_def)
  then have "fetch_commit_activity L (Response r) =
      Inr (Some (Ready (sum_list (map week_total ws)) dates
                   (map (\<lambda>w. JInt (week_total w)) ws) daily))"
    by (simp add: fetch_commit_activity_def)
  with dates(2) daily(2,3) show ?thesis by blast
qed

lemma commit_activity_scenario:
  assumes "status_code r = 200" and "json r = Inr (scenario_weeks ts1 ts2)"
    and "timestamp_strftime L ts1 ''%Y-%m-%d'' = Inr d1"
    and "timestamp_strftime L ts2 ''%Y-%m-%d'' = Inr d2"
  shows "fetch_commit_activity L (Response r) =
     Inr (Some (Ready 8 [d1, d2] [JInt 5, JInt 3] [1, 1, 1, 0, 0, 1, 4]))"
  using assms
  by (simp add: fetch_commit_activity_def commit_activity_body_def and_then_def lift_py_def
      scenario_weeks_def upt_7 replicate_7)

text \<open>
  Claim C1. On a 200 response whose payload is a non-empty list of well-formed weeks,
  \<^verbatim>\<open>fetch_commit_activity\<close> returns the ready state, and there the total equals the
  sum of the weekly counts and the sum of the seven daily slots. For the two weeks of the
  scenario (totals 5 and 3, days 1,0,0,0,0,0,4 and 0,1,1,0,0,1,0) it returns the total 8
  and the daily counts 1,1,1,0,0,1,4.
\<close>

theorem commit_totals_consistent:
  "(status_code r = 200 \<and> json r = Inr (JArr ws) \<and> ws \<noteq> [] \<and>
    list_all (well_formed_week L) ws \<longrightarrow>
      (\<exists>T dates cs daily.
         fetch_commit_activity L (Response r) = Inr (Some (Ready T dates (map JInt cs) daily)) \<and>
         length cs = length ws \<and> length dates = length ws \<and> length daily = 7 \<and>
         T = sum_list cs \<and> T = sum_list daily)) \<and>
   (status_code r = 200 \<and> json r = Inr (scenario_weeks ts1 ts2) \<and>
    timestamp_strftime L ts1 ''%Y-%m-%d'' = Inr d1 \<and>
    timestamp_strftime L ts2 ''%Y-%m-%d'' = Inr d2 \<longrightarrow>
      fetch_commit_activity L (Response r) =
        Inr (Some (Ready 8 [d1, d2] [JInt 5, JInt 3] [1, 1, 1, 0, 0, 1, 4])))"
proof (intro conjI impI)
  assume a: "status_code r = 200 \<and> json r = Inr (JArr ws) \<and> ws \<noteq> [] \<and>
    list_all (well_formed_week L) ws"
  then obtain dates daily where
    "fetch_commit_activity L (Response r) =
       Inr (Some (Ready (sum_list (map week_total ws)) dates
                    (map (\<lambda>w. JInt (week_total w)) ws) daily))"
    "length dates = length ws" "length daily = 7"
    "sum_list daily = sum_list (map week_total ws)"
    using commit_activity_ready[of r ws L] by blast
  then have "fetch_commit_activity L (Response r) =
       Inr (Some (Ready (sum_list (map week_total ws)) dates
                    (map JInt (map week_total ws)) daily)) \<and>
     length (map week_total ws) = length ws \<and> length dates = length ws \<and>
     length daily = 7 \<and> sum_list (map week_total ws) = sum_list (map week_total ws) \<and>
     sum_list (map week_total ws) = sum_list daily"
    by (simp add: comp_def)
  then show "\<exists>T dates cs daily.
         fetch_commit_activity L (Response r) = Inr (Some (Ready T dates (map JInt cs) daily)) \<and>
         length cs = length ws \<and> length dates = length ws \<and> length daily = 7 \<and>
         T = sum_list cs \<and> T = sum_list daily"
    by blast
next
  assume "status_code r = 200 \<and> json r = Inr (scenario_weeks ts1 ts2) \<and>
    timestamp_strftime L ts1 ''%Y-%m-%d'' = Inr d1 \<and>
    timestamp_strftime L ts2 ''%Y-%m-%d'' = Inr d2"
  then show "fetch_commit_activity L (Response r) =
        Inr (Some (Ready 8 [d1, d2] [JInt 5, JInt 3] [1, 1, 1, 0, 0, 1, 4]))"
    using commit_activity_scenario by blast
qed

theorem commit_totals_consistent_witness:
  "list_all (well_formed_week ref_lib)
     [JObj [(''total'', JInt 5), (''week'', JInt 1699747200),
            (''days'', JArr (map JInt [1, 0, 0, 0, 0, 0, 4]))],
      JObj [(''total'', JInt 3), (''week'', JInt 1700352000),
            (''days'', JArr (map JInt [0, 1, 1, 0, 0, 1, 0]))]] \<and>
   (\<exists>T dates cs daily.
      fetch_commit_activity ref_lib
        (Response \<lparr>status_code = 200, headers = Map.empty, body_text = [],
                    json = Inr (scenario_weeks 1699747200 1700352000)\<rparr>) =
        Inr (Some (Ready T dates (map JInt cs) daily)) \<and>
      length cs = 2 \<and> length dates = 2 \<and> length daily = 7 \<and>
      T = sum_list cs \<and> T = sum_list daily) \<and>
   fetch_commit_activity ref_lib
     (Response \<lparr>status_code = 200, headers = Map.empty, body_text = [],
                 json = Inr (scenario_weeks 1699747200 1700352000)\<rparr>) =
     Inr (Some (Ready 8 [''2023-11-12'', ''2023-11-19''] [JInt 5, JInt 3]
                  [1, 1, 1, 0, 0, 1, 4]))"
proof -
  let ?ws = "[JObj [(''total'', JInt 5), (''week'', JInt 1699747200),
            (''days'', JArr (map JInt [1, 0, 0, 0, 0, 0, 4]))],
      JObj [(''total'', JInt 3), (''week'', JInt 1700352000),
            (''days'', JArr (map JInt [0, 1, 1, 0, 0, 1, 0]))]]"
  let ?r = "\<lparr>status_code = 200, headers = Map.empty, body_text = [],
             json = Inr (scenario_weeks 1699747200 1700352000)\<rparr>"
  have s: "status_code ?r = 200" by simp
  have j: "json ?r = Inr (JArr ?ws)" by (simp add: scenario_weeks_def)
  have j': "json ?r = Inr (scenario_weeks 1699747200 1700352000)" by simp
  have n: "?ws \<noteq> []" by simp
  have l: "length ?ws = 2" by simp
  note t = commit_totals_consistent
    [of ?r ?ws ref_lib 1699747200 1700352000 "''2023-11-12''" "''2023-11-19''"]
  from t s j n scenario_well_formed have
    "\<exists>T dates cs daily.
      fetch_commit_activity ref_lib (Response ?r) =
        Inr (Some (Ready T dates (map JInt cs) daily)) \<and>
      length cs = length ?ws \<and> length dates = length ?ws \<and> length daily = 7 \<and>
      T = sum_list cs \<and> T = sum_list daily"
    by blast
  moreover from t s j' ref_ymd_week1 ref_ymd_week2 have
    "fetch_commit_activity ref_lib (Response ?r) =
     Inr (Some (Ready 8 [''2023-11-12'', ''2023-11-19''] [JInt 5, JInt 3]
                  [1, 1, 1, 0, 0, 1, 4]))"
    by blast
  ultimately show ?thesis unfolding l using scenario_well_formed by blast
qed


section \<open>Commit activity: the computing state\<close>

text \<open>
  Claim C6. A response with status 202 from the commit-activity endpoint makes
  \<^verbatim>\<open>fetch_commit_activity\<close> return the computing state with its message; nothing is
  raised and the body is not read. The call makes one request: the model has no retry.
\<close>

theorem fetch_commit_activity_202:
  "status_code r = 202 \<Longrightarrow>
   fetch_commit_activity L (Response r) =
     Inr (Some (Computing
       ''GitHub is computing statistics. Please wait a moment and try again.''))"
  by (simp add: fetch_commit_activity_def commit_activity_body_def and_then_def)

theorem fetch_commit_activity_202_witness:
  "status_code \<lparr>status_code = 202, headers = Map.empty, body_text = ''not json'',
                 json = Inl JSONDecodeError\<rparr> = 202 \<and>
   fetch_commit_activity ref_lib
     (Response \<lparr>status_code = 202, headers = Map.empty, body_text = ''not json'',
                 json = Inl JSONDecodeError\<rparr>) =
     Inr (Some (Computing
       ''GitHub is computing statistics. Please wait a moment and try again.''))"
  using fetch_commit_activity_202
    [of "\<lparr>status_code = 202, headers = Map.empty, body_text = ''not json'',
          json = Inl JSONDecodeError\<rparr>" ref_lib]
  by simp

section \<open>Status 404\<close>

text \<open>
  Claim C7. On a response with status 404 the repository and the language fetchers
  propagate the error of \<^verbatim>\<open>handle_github_error\<close> (status 404, "Repository not found"),
  but \<^verbatim>\<open>fetch_commit_activity\<close> catches that error in its last \<^verbatim>\<open>except\<close> clause
  and raises a new one with the message prefixed and no status code.
\<close>

theorem not_found_commit_activity_rewrapped:
  "fetch_commit_activity ref_lib
     (Response \<lparr>status_code = 404, headers = Map.empty, body_text = [],
                 json = Inl JSONDecodeError\<rparr>) =
     Inl (GitHubAPIError
            ''Error fetching commit activity: Repository not found. Please check the URL.''
            None None) \<and>
   fetch_repo_data ref_lib
     (Response \<lparr>status_code = 404, headers = Map.empty, body_text = [],
                 json = Inl JSONDecodeError\<rparr>) =
     Inl (GitHubAPIError ''Repository not found. Please check the URL.''
            (Some 404) (Some ''Unknown'')) \<and>
   fetch_language_stats ref_lib
     (Response \<lparr>status_code = 404, headers = Map.empty, body_text = [],
                 json = Inl JSONDecodeError\<rparr>) =
     Inl (GitHubAPIError ''Repository not found. Please check the URL.''
            (Some 404) (Some ''Unknown''))"
  by (simp add: fetch_commit_activity_def commit_activity_body_def fetch_repo_data_def
      repo_data_body_def fetch_language_stats_def language_stats_body_def and_then_def
      handle_github_error_def header_reset_time_def)

section \<open>Timeouts\<close>

text \<open>
  Claim C4, as the code has it. On a transport timeout no fetcher returns a value:
  \<^verbatim>\<open>fetch_repo_data\<close> raises a \<^verbatim>\<open>GitHubAPIError\<close> whose message suggests a retry,
  \<^verbatim>\<open>fetch_language_stats\<close> re-raises the \<^verbatim>\<open>requests.Timeout\<close> itself, and
  \<^verbatim>\<open>fetch_commit_activity\<close> raises a \<^verbatim>\<open>GitHubAPIError\<close> whose message names the
  timeout and suggests no retry.
\<close>

theorem timeout_outcomes:
  "fetch_repo_data L RaisesTimeout =
     Inl (GitHubAPIError ''Request timed out. Please try again.'' None None) \<and>
   retry_suggestion ''Request timed out. Please try again.'' \<and>
   fetch_language_stats L RaisesTimeout = Inl Timeout \<and>
   fetch_commit_activity L RaisesTimeout =
     Inl (GitHubAPIError ''Request timed out while fetching commit activity.'' None None) \<and>
   \<not> retry_suggestion ''Request timed out while fetching commit activity.''"
  by (simp add: fetch_commit_activity_def commit_activity_body_def fetch_repo_data_def
      repo_data_body_def fetch_language_stats_def language_stats_body_def and_then_def
      retry_suggestion_def)

text \<open>
  Claim C4 as stated fails: the three fetchers do not all answer a timeout with a
  \<^verbatim>\<open>GitHubAPIError\<close> whose message suggests a retry.
\<close>

theorem timeout_not_uniform:
  "\<not> (timeout_error (fetch_repo_data ref_lib RaisesTimeout) \<and>
      timeout_error (fetch_language_stats ref_lib RaisesTimeout) \<and>
      timeout_error (fetch_commit_activity ref_lib RaisesTimeout))"
  by (simp add: timeout_error_def fetch_language_stats_def language_stats_body_def and_then_def)

section \<open>Status 403\<close>

text \<open>
  Claim C5, as the code has it. On a response with status 403 whose reset header is
  absent, empty, or a timestamp the library converts, \<^verbatim>\<open>handle_github_error\<close> raises
  a \<^verbatim>\<open>GitHubAPIError\<close> with status 403 whose \<^verbatim>\<open>remaining_calls\<close> is the
  \<^verbatim>\<open>X-RateLimit-Remaining\<close> header as it is (\<^verbatim>\<open>'Unknown'\<close> when absent); the reset
  time is part of the message only, as \<^verbatim>\<open>'Unknown'\<close> or as the converted
  \<^verbatim>\<open>HH:MM:SS\<close> local time.
\<close>

theorem rate_limited_error:
  "status_code r = 403 \<Longrightarrow>
   ((headers r ''X-RateLimit-Reset'' = None \<or> headers r ''X-RateLimit-Reset'' = Some []) \<longrightarrow>
      handle_github_error L r =
        GitHubAPIError
          (''Rate limit exceeded. Resets at Unknown. Remaining calls: '' @ remaining_header r)
          (Some 403) (Some (remaining_header r))) \<and>
   (\<forall>s n t. headers r ''X-RateLimit-Reset'' = Some s \<and> s \<noteq> [] \<and>
        int_of_str L s = Inr n \<and> timestamp_strftime L n ''%H:%M:%S'' = Inr t \<longrightarrow>
      handle_github_error L r =
        GitHubAPIError
          (''Rate limit exceeded. Resets at '' @ t @ ''. Remaining calls: '' @ remaining_header r)
          (Some 403) (Some (remaining_header r)))"
  by (auto simp add: handle_github_error_def header_reset_time_def remaining_header_def
      and_then_def Let_def)

theorem rate_limited_error_witness:
  "handle_github_error ref_lib
     \<lparr>status_code = 403,
      headers = [''X-RateLimit-Remaining'' \<mapsto> ''0'', ''X-RateLimit-Reset'' \<mapsto> ''1700000000''],
      body_text = [], json = Inl JSONDecodeError\<rparr> =
   GitHubAPIError ''Rate limit exceeded. Resets at 22:13:20. Remaining calls: 0''
     (Some 403) (Some ''0'') \<and>
   handle_github_error ref_lib
     \<lparr>status_code = 403, headers = Map.empty, body_text = [], json = Inl JSONDecodeError\<rparr> =
   GitHubAPIError ''Rate limit exceeded. Resets at Unknown. Remaining calls: Unknown''
     (Some 403) (Some ''Unknown'')"
proof -
  let ?r = "\<lparr>status_code = 403,
      headers = [''X-RateLimit-Remaining'' \<mapsto> ''0'', ''X-RateLimit-Reset'' \<mapsto> ''1700000000''],
      body_text = [], json = Inl JSONDecodeError\<rparr>"
  let ?r' = "\<lparr>status_code = 403, headers = Map.empty, body_text = [],
      json = Inl JSONDecodeError\<rparr>"
  have h: "headers ?r ''X-RateLimit-Reset'' = Some ''1700000000''" by simp
  have "handle_github_error ref_lib ?r =
      GitHubAPIError
        (''Rate limit exceeded. Resets at '' @ ''22:13:20'' @ ''. Remaining calls: '' @
           remaining_header ?r)
        (Some 403) (Some (remaining_header ?r))"
    using rate_limited_error [of ?r ref_lib] h ref_int_1700000000 ref_hms_1700000000
    by simp
  moreover have "handle_github_error ref_lib ?r' =
      GitHubAPIError
        (''Rate limit exceeded. Resets at Unknown. Remaining calls: '' @ remaining_header ?r')
        (Some 403) (Some (remaining_header ?r'))"
    using rate_limited_error [of ?r' ref_lib] by simp
  ultimately show ?thesis by (simp add: remaining_header_def)
qed

text \<open>
  Claim C5 as stated fails: with the reset header \<^verbatim>\<open>1700000000\<close> the reset time of
  the error is the converted \<^verbatim>\<open>22:13:20\<close> (on a host on UTC), not the header.
\<close>

theorem reset_time_converted:
  "handle_github_error ref_lib
     \<lparr>status_code = 403,
      headers = [''X-RateLimit-Remaining'' \<mapsto> ''0'', ''X-RateLimit-Reset'' \<mapsto> ''1700000000''],
      body_text = [], json = Inl JSONDecodeError\<rparr> =
   GitHubAPIError ''Rate limit exceeded. Resets at 22:13:20. Remaining calls: 0''
     (Some 403) (Some ''0'') \<and>
   header_reset_time ref_lib
     \<lparr>status_code = 403,
      headers = [''X-RateLimit-Remaining'' \<mapsto> ''0'', ''X-RateLimit-Reset'' \<mapsto> ''1700000000''],
      body_text = [], json = Inl JSONDecodeError\<rparr> \<noteq> Inr ''1700000000''"
  by (simp add: handle_github_error_def header_reset_time_def and_then_def Let_def
      ref_int_1700000000 ref_hms_1700000000)


section \<open>Rounding to binary64\<close>



























section \<open>Language percentages\<close>

















section \<open>Empty language payload\<close>

text \<open>
  Claim C8. On a 200 response whose payload is the empty dict,
  \<^verbatim>\<open>fetch_language_stats\<close> returns \<^verbatim>\<open>None\<close>: no exception and no empty dict.
\<close>

theorem fetch_language_stats_empty:
  "status_code r = 200 \<Longrightarrow> json r = Inr (JObj []) \<Longrightarrow>
   fetch_language_stats L (Response r) = Inr None"
  by (simp add: fetch_language_stats_def language_stats_body_def and_then_def lift_py_def)


theorem fetch_language_stats_empty_witness:
  "fetch_language_stats ref_lib
     (Response \<lparr>status_code = 200, headers = Map.empty, body_text = ''{}'',
                 json = Inr (JObj [])\<rparr>) = Inr None"
  using fetch_language_stats_empty
    [of "\<lparr>status_code = 200, headers = Map.empty, body_text = ''{}'',
          json = Inr (JObj [])\<rparr>" ref_lib]
  by simp

section \<open>The rate limit inspector\<close>

text \<open>
  Claim C9. Whatever the request does (it raises, or it returns any response),
  \<^verbatim>\<open>check_rate_limit\<close> returns and raises nothing; it returns a snapshot only when the
  status is 200 and the payload has \<^verbatim>\<open>resources.core\<close> with \<^verbatim>\<open>remaining\<close>,
  \<^verbatim>\<open>limit\<close> and a \<^verbatim>\<open>reset\<close> that converts to a time, and then the snapshot holds
  these values.
\<close>

theorem check_rate_limit_best_effort:
  "(\<exists>v. check_rate_limit L out = Inr v) \<and>
   (\<forall>s. check_rate_limit L out = Inr (Some s) \<longrightarrow>
      (\<exists>r data res core rs.
         out = Response r \<and> status_code r = 200 \<and> json r = Inr data \<and>
         getitem_str data ''resources'' = Inr res \<and>
         getitem_str res ''core'' = Inr core \<and>
         getitem_str core ''remaining'' = Inr (remaining s) \<and>
         getitem_str core ''reset'' = Inr rs \<and>
         fromtimestamp_strftime L rs ''%H:%M:%S'' = Inr (reset_time s) \<and>
         getitem_str core ''limit'' = Inr (limit s)))"
proof (intro conjI allI impI)
  show "\<exists>v. check_rate_limit L out = Inr v"
    by (simp add: check_rate_limit_def split: sum.split)
next
  fix s
  assume a: "check_rate_limit L out = Inr (Some s)"
  then have b: "rate_limit_body L out = Inr (Some s)"
    by (simp add: check_rate_limit_def split: sum.splits)
  then obtain r where r: "out = Response r"
    by (cases out) (simp_all add: rate_limit_body_def and_then_def)
  from b r have st: "status_code r = 200"
    by (simp add: rate_limit_body_def and_then_def split: if_splits)
  from b r st obtain data where d: "json r = Inr data"
    by (cases "json r") (simp_all add: rate_limit_body_def and_then_def lift_py_def)
  from b r st d show "\<exists>r data res core rs.
         out = Response r \<and> status_code r = 200 \<and> json r = Inr data \<and>
         getitem_str data ''resources'' = Inr res \<and>
         getitem_str res ''core'' = Inr core \<and>
         getitem_str core ''remaining'' = Inr (remaining s) \<and>
         getitem_str core ''reset'' = Inr rs \<and>
         fromtimestamp_strftime L rs ''%H:%M:%S'' = Inr (reset_time s) \<and>
         getitem_str core ''limit'' = Inr (limit s)"
    by (auto simp add: rate_limit_body_def and_then_def lift_py_def split: sum.splits)
qed

theorem check_rate_limit_best_effort_witness:
  "check_rate_limit ref_lib
     (Response \<lparr>status_code = 200, headers = Map.empty, body_text = [],
        json = Inr (JObj [(''resources'', JObj [(''core'',
          JObj [(''limit'', JInt 60), (''remaining'', JInt 59),
                (''reset'', JInt 1700000000)])])])\<rparr>) =
     Inr (Some \<lparr>remaining = JInt 59, reset_time = ''22:13:20'', limit = JInt 60\<rparr>) \<and>
   (\<exists>r data res core rs.
      Response \<lparr>status_code = 200, headers = Map.empty, body_text = [],
        json = Inr (JObj [(''resources'', JObj [(''core'',
          JObj [(''limit'', JInt 60), (''remaining'', JInt 59),
                (''reset'', JInt 1700000000)])])])\<rparr> = Response r \<and>
      status_code r = 200 \<and> json r = Inr data \<and>
      getitem_str data ''resources'' = Inr res \<and>
      getitem_str res ''core'' = Inr core \<and>
      getitem_str core ''remaining'' = Inr (JInt 59) \<and>
      getitem_str core ''reset'' = Inr rs \<and>
      fromtimestamp_strftime ref_lib rs ''%H:%M:%S'' = Inr ''22:13:20'' \<and>
      getitem_str core ''limit'' = Inr (JInt 60))"
proof -
  let ?out = "Response \<lparr>status_code = 200, headers = Map.empty, body_text = [],
        json = Inr (JObj [(''resources'', JObj [(''core'',
          JObj [(''limit'', JInt 60), (''remaining'', JInt 59),
                (''reset'', JInt 1700000000)])])])\<rparr>"
  have e: "check_rate_limit ref_lib ?out =
      Inr (Some \<lparr>remaining = JInt 59, reset_time = ''22:13:20'', limit = JInt 60\<rparr>)"
    by (simp add: check_rate_limit_def rate_limit_body_def and_then_def lift_py_def
        ref_lib_def ref_timestamp_strftime_def pad2_def)
  from check_rate_limit_best_effort [of ref_lib ?out] e show ?thesis
    by simp
qed

section \<open>The identifier extractor\<close>

text \<open>
  Claim C3. \<^verbatim>\<open>extract_repo_info\<close> removes every occurrence of \<^verbatim>\<open>.git\<close> from the
  captured name, not only a trailing one: the repository \<^verbatim>\<open>octocat.github.io\<close> of
  \<^verbatim>\<open>octocat\<close> comes out as \<^verbatim>\<open>octocathub.io\<close>.
\<close>

theorem extract_repo_info_inner_git:
  "extract_repo_info ''https://github.com/octocat/octocat.github.io'' =
     (Some ''octocat'', Some ''octocathub.io'')"
  by code_simp

section \<open>Optional fields of the repository summary\<close>

text \<open>
  Claim C10. On a 200 response whose payload is a dict with the required keys and dates
  that parse, \<^verbatim>\<open>fetch_repo_data\<close> returns the summary in which \<^verbatim>\<open>description\<close> and
  \<^verbatim>\<open>language\<close> are the payload's values whenever the key is present (a null stays a
  null), and the default strings only when the key is absent.
\<close>

theorem fetch_repo_data_optional_fields:
  assumes "status_code r = 200" and "json r = Inr (JObj kvs)"
    and "map_of kvs ''name'' = Some n"
    and "map_of kvs ''stargazers_count'' = Some s"
    and "map_of kvs ''forks_count'' = Some f"
    and "map_of kvs ''watchers_count'' = Some w"
    and "map_of kvs ''created_at'' = Some c" and "format_date L c = Inr created"
    and "map_of kvs ''updated_at'' = Some u" and "format_date L u = Inr updated"
  shows "fetch_repo_data L (Response r) =
     Inr \<lparr>name = n,
          description = (case map_of kvs ''description'' of
                           None \<Rightarrow> JStr ''No description available'' | Some v \<Rightarrow> v),
          stargazers_count = s, forks_count = f, watchers_count = w,
          language = (case map_of kvs ''language'' of
                        None \<Rightarrow> JStr ''Not specified'' | Some v \<Rightarrow> v),
          created_at = created, updated_at = updated\<rparr>"
  using assms
  by (simp add: fetch_repo_data_def repo_data_body_def build_repo_info_def and_then_def
      lift_py_def split: option.split)

theorem fetch_repo_data_optional_fields_witness:
  "fetch_repo_data ref_lib
     (Response \<lparr>status_code = 200, headers = Map.empty, body_text = [],
        json = Inr (JObj [(''name'', JStr ''Hello-World''), (''description'', JNull),
          (''stargazers_count'', JInt 80), (''forks_count'', JInt 9),
          (''watchers_count'', JInt 80),
          (''created_at'', JStr ''2011-01-26T19:01:12Z''),
          (''updated_at'', JStr ''2024-02-29T08:30:00Z'')])\<rparr>) =
     Inr \<lparr>name = JStr ''Hello-World'', description = JNull,
          stargazers_count = JInt 80, forks_count = JInt 9, watchers_count = JInt 80,
          language = JStr ''Not specified'',
          created_at = ''2011-01-26'', updated_at = ''2024-02-29''\<rparr>"
  using fetch_repo_data_optional_fields
    [of "\<lparr>status_code = 200, headers = Map.empty, body_text = [],
        json = Inr (JObj [(''name'', JStr ''Hello-World''), (''description'', JNull),
          (''stargazers_count'', JInt 80), (''forks_count'', JInt 9),
          (''watchers_count'', JInt 80),
          (''created_at'', JStr ''2011-01-26T19:01:12Z''),
          (''updated_at'', JStr ''2024-02-29T08:30:00Z'')])\<rparr>"
        "[(''name'', JStr ''Hello-World''), (''description'', JNull),
          (''stargazers_count'', JInt 80), (''forks_count'', JInt 9),
          (''watchers_count'', JInt 80),
          (''created_at'', JStr ''2011-01-26T19:01:12Z''),
          (''updated_at'', JStr ''2024-02-29T08:30:00Z'')]"
        "JStr ''Hello-World''" "JInt 80" "JInt 9" "JInt 80"
        "JStr ''2011-01-26T19:01:12Z''" ref_lib "''2011-01-26''"
        "JStr ''2024-02-29T08:30:00Z''" "''2024-02-29''",
     OF _ _ _ _ _ _ _ ref_format_date_created _ ref_format_date_updated]
  by simp


end
